theory Spec2Isabelle
  imports Complex_Main "HOL-Library.Char_ord" "HOL-Library.List_Lexorder"
begin

section \<open>Python values\<close>

text \<open>
  Exceptions of the two source files are values. Python floats are modelled as reals
  (rounding is abstracted away), with one extra value for NaN where a float is the result
  of a computation: every ordered comparison with NaN is false, as in Python.
\<close>

datatype pyerror = ValueError | IndexError | ZeroDivisionError | FileNotFoundError

datatype pyfloat = Num real | NaN

fun flt :: "pyfloat \<Rightarrow> pyfloat \<Rightarrow> bool" where
  "flt (Num a) (Num b) = (a < b)"
| "flt _ _ = False"

definition fgt :: "pyfloat \<Rightarrow> pyfloat \<Rightarrow> bool" where
  "fgt a b = flt b a"

text \<open>
  Python's \<^verbatim>\<open>min(xs)\<close>: the first element is the candidate, and a later element
  replaces it when it compares strictly smaller; an empty argument raises ValueError.
\<close>

fun min_from :: "pyfloat \<Rightarrow> pyfloat list \<Rightarrow> pyfloat" where
  "min_from m [] = m"
| "min_from m (x # xs) = min_from (if flt x m then x else m) xs"

definition py_min :: "pyfloat list \<Rightarrow> pyerror + pyfloat" where
  "py_min xs = (case xs of [] \<Rightarrow> Inl ValueError | x # rest \<Rightarrow> Inr (min_from x rest))"

text \<open>
  The slice \<^verbatim>\<open>xs[:stop]\<close>: a negative stop counts from the end, and the bounds are
  clamped to the list. Note that \<^verbatim>\<open>xs[:-0]\<close> is \<^verbatim>\<open>xs[:0]\<close>, the empty list.
\<close>

definition slice_upto :: "'a list \<Rightarrow> int \<Rightarrow> 'a list" where
  "slice_upto xs stop =
     (if stop < 0 then take (nat (int (length xs) + stop)) xs else take (nat stop) xs)"

text \<open>Float division \<^verbatim>\<open>a / b\<close> raises ZeroDivisionError on a zero divisor.\<close>

definition py_truediv :: "real \<Rightarrow> real \<Rightarrow> pyerror + real" where
  "py_truediv a b = (if b = 0 then Inl ZeroDivisionError else Inr (a / b))"

section \<open>main_ETM: model selection and learning-rate annealing\<close>

text \<open>
  The hyperparameters of \<^verbatim>\<open>main_ETM\<close> that the driver itself inspects. The class ETM
  (\<^verbatim>\<open>train_for_epoch\<close>, \<^verbatim>\<open>evaluate\<close>, \<^verbatim>\<open>visualize\<close>) is not part of the sources at
  hand: the perplexity that \<^verbatim>\<open>model.evaluate\<close> returns in epoch \<open>e\<close> is the value
  \<open>ev e\<close> of an arbitrary function, so every theorem holds for every sequence of
  evaluation results, and a call is recorded in the trace of the run.
\<close>

record config =
  mode :: string
  lr :: real
  lr_factor :: real
  epochs :: int
  nonmono :: int
  anneal_lr :: int
  visualize_every :: int

datatype ckpt = Previous | Epoch nat

datatype event =
    TrainForEpoch nat
  | Evaluate string
  | Save nat
  | Load
  | Visualize nat
  | SaveParameters

text \<open>
  The variables of the training branch: \<open>opt_lr\<close> is \<^verbatim>\<open>optimizer.param_groups[0]['lr']\<close>,
  \<open>ckpt_file\<close> is the content of the file at the checkpoint path (\<open>None\<close> when the file
  does not exist, \<open>Previous\<close> for a file that was there before the run, \<open>Epoch e\<close> for
  the model saved in epoch \<open>e\<close>), and \<open>trace\<close> lists the calls and file operations in
  program order.
\<close>

record state =
  opt_lr :: real
  best_epoch :: nat
  best_val_ppl :: pyfloat
  all_val_ppls :: "pyfloat list"
  ckpt_file :: "ckpt option"
  trace :: "event list"

text \<open>A run either completes or stops at a raised exception; the state at that point is kept,
  since what was written to disk stays written.\<close>

datatype outcome = Done state | Raised pyerror state

fun final :: "outcome \<Rightarrow> state" where
  "final (Done s) = s"
| "final (Raised e s) = s"

fun and_then :: "outcome \<Rightarrow> (state \<Rightarrow> outcome) \<Rightarrow> outcome" where
  "and_then (Done s) f = f s"
| "and_then (Raised e s) f = Raised e s"

text \<open>
  Lines 149 to 151, the learning rate after the annealing check of a non-improving epoch:
  \<^verbatim>\<open>
  lr = optimizer.param_groups[0]['lr']
  if anneal_lr and (len(all_val_ppls) > nonmono and
                    val_ppl > min(all_val_ppls[:-nonmono]) and lr > 1e-5):
      optimizer.param_groups[0]['lr'] /= lr_factor
  \<close>
  The conjunction is evaluated left to right and stops at the first false operand.
\<close>

definition check_anneal :: "config \<Rightarrow> pyfloat list \<Rightarrow> pyfloat \<Rightarrow> real \<Rightarrow> pyerror + real" where
  "check_anneal cfg hist val_ppl cur =
     (if anneal_lr cfg \<noteq> 0 then
        if int (length hist) > nonmono cfg then
          case py_min (slice_upto hist (- nonmono cfg)) of
            Inl e \<Rightarrow> Inl e
          | Inr m \<Rightarrow>
              if fgt val_ppl m then
                if cur > 1 / 100000 then py_truediv cur (lr_factor cfg) else Inr cur
              else Inr cur
        else Inr cur
      else Inr cur)"

text \<open>Lines 142 to 151: save the model on an improvement, otherwise check whether to anneal.\<close>

definition select_or_anneal :: "config \<Rightarrow> nat \<Rightarrow> pyfloat \<Rightarrow> state \<Rightarrow> outcome" where
  "select_or_anneal cfg epoch val_ppl s =
     (if flt val_ppl (best_val_ppl s) then
        Done (s\<lparr>ckpt_file := Some (Epoch epoch), trace := trace s @ [Save epoch],
                best_epoch := epoch, best_val_ppl := val_ppl\<rparr>)
      else
        case check_anneal cfg (all_val_ppls s) val_ppl (opt_lr s) of
          Inl e \<Rightarrow> Raised e s
        | Inr new_lr \<Rightarrow> Done (s\<lparr>opt_lr := new_lr\<rparr>))"

text \<open>Lines 152 and 153: \<^verbatim>\<open>if epoch > 0 and epoch % visualize_every == 0\<close>.\<close>

definition maybe_visualize :: "config \<Rightarrow> nat \<Rightarrow> state \<Rightarrow> outcome" where
  "maybe_visualize cfg epoch s =
     (if epoch > 0 then
        if visualize_every cfg = 0 then Raised ZeroDivisionError s
        else if int epoch mod visualize_every cfg = 0
          then Done (s\<lparr>trace := trace s @ [Visualize epoch]\<rparr>)
          else Done s
      else Done s)"

text \<open>Lines 137 to 154, the body of the loop over the epochs.\<close>

definition epoch_body :: "config \<Rightarrow> (nat \<Rightarrow> pyfloat) \<Rightarrow> nat \<Rightarrow> state \<Rightarrow> outcome" where
  "epoch_body cfg ev epoch s =
     (let s1 = s\<lparr>trace := trace s @ [TrainForEpoch epoch, Evaluate ''val'']\<rparr>;
          val_ppl = ev epoch
      in and_then (select_or_anneal cfg epoch val_ppl s1) (\<lambda>s2.
         and_then (maybe_visualize cfg epoch s2) (\<lambda>s3.
         Done (s3\<lparr>all_val_ppls := all_val_ppls s3 @ [val_ppl]\<rparr>))))"

fun epoch_loop :: "config \<Rightarrow> (nat \<Rightarrow> pyfloat) \<Rightarrow> nat list \<Rightarrow> state \<Rightarrow> outcome" where
  "epoch_loop cfg ev [] s = Done s"
| "epoch_loop cfg ev (epoch # rest) s =
     and_then (epoch_body cfg ev epoch s) (epoch_loop cfg ev rest)"

text \<open>Lines 155 and 161: \<^verbatim>\<open>open(ckpt, 'rb')\<close> raises when the file does not exist.\<close>

definition load_ckpt :: "state \<Rightarrow> outcome" where
  "load_ckpt s =
     (case ckpt_file s of
        None \<Rightarrow> Raised FileNotFoundError s
      | Some c \<Rightarrow> Done (s\<lparr>trace := trace s @ [Load]\<rparr>))"

definition initial :: "config \<Rightarrow> ckpt option \<Rightarrow> state" where
  "initial cfg disk =
     \<lparr>opt_lr = lr cfg, best_epoch = 0, best_val_ppl = Num (10 ^ 9), all_val_ppls = [],
      ckpt_file = disk, trace = []\<rparr>"

text \<open>
  Lines 131 to 223. In the training branch \<open>disk\<close> is what lies at
  \<^verbatim>\<open>save_path/model_file\<close> before the run, in the other branch what lies at
  \<^verbatim>\<open>load_from\<close>. The evaluation branch computes topic statistics between its call of
  \<^verbatim>\<open>evaluate\<close> and the export of the parameters; that numeric part is not modelled.
\<close>

definition main_ETM :: "config \<Rightarrow> (nat \<Rightarrow> pyfloat) \<Rightarrow> ckpt option \<Rightarrow> outcome" where
  "main_ETM cfg ev disk =
     (if mode cfg = ''train'' then
        and_then (epoch_loop cfg ev [0..<nat (epochs cfg)] (initial cfg disk)) (\<lambda>s.
        and_then (load_ckpt s) (\<lambda>s'.
        Done (s'\<lparr>trace := trace s' @ [Evaluate ''val'']\<rparr>)))
      else
        and_then (load_ckpt (initial cfg disk)) (\<lambda>s.
        Done (s\<lparr>trace := trace s @ [Evaluate ''val'', SaveParameters]\<rparr>)))"

text \<open>The labels of the \<^verbatim>\<open>model.evaluate\<close> calls of a trace, in order.\<close>

fun evaluate_labels :: "event list \<Rightarrow> string list" where
  "evaluate_labels [] = []"
| "evaluate_labels (Evaluate l # xs) = l # evaluate_labels xs"
| "evaluate_labels (x # xs) = evaluate_labels xs"

subsection \<open>The annealing condition in the words of the specification\<close>




text \<open>The invariant of the best value seen: a number that is at most the sentinel.\<close>

definition below_sentinel :: "state \<Rightarrow> bool" where
  "below_sentinel s = (case best_val_ppl s of Num b \<Rightarrow> b \<le> 10 ^ 9 | NaN \<Rightarrow> False)"

subsection \<open>Concrete runs\<close>

text \<open>Training runs of three epochs with the default learning rate, and perplexities
  5, 6, 7 that get worse after the first epoch.\<close>

definition annealing_run :: config where
  "annealing_run = \<lparr>mode = ''train'', lr = 5 / 1000, lr_factor = 4, epochs = 3, nonmono = 1,
     anneal_lr = 1, visualize_every = 100000\<rparr>"

definition rising_ppl :: "nat \<Rightarrow> pyfloat" where
  "rising_ppl e = Num (5 + real e)"




text \<open>The same run with a factor below one.\<close>

definition growing_rate :: config where
  "growing_rate = annealing_run\<lparr>lr_factor := 1 / 2\<rparr>"

text \<open>Perplexities that never get below the sentinel: NaN, then twice the sentinel.\<close>

definition hopeless_ppl :: "nat \<Rightarrow> pyfloat" where
  "hopeless_ppl e = (if e = 0 then NaN else Num (2 * 10 ^ 9))"

definition hopeless_end :: state where
  "hopeless_end = \<lparr>opt_lr = 5 / 1000, best_epoch = 0, best_val_ppl = Num (10 ^ 9),
     all_val_ppls = [NaN, Num (2 * 10 ^ 9), Num (2 * 10 ^ 9)], ckpt_file = None,
     trace = [TrainForEpoch 0, Evaluate ''val'', TrainForEpoch 1, Evaluate ''val'',
              TrainForEpoch 2, Evaluate ''val'']\<rparr>"

section \<open>Properties of the model selector and the annealer\<close>

subsection \<open>One epoch\<close>




lemma check_anneal_result:
  "check_anneal cfg hist v cur = Inr l \<Longrightarrow>
     l = cur \<or> (1 / 100000 < cur \<and> lr_factor cfg \<noteq> 0 \<and> l = cur / lr_factor cfg)"
  by (auto simp: check_anneal_def py_truediv_def split: if_splits sum.splits)

lemma select_or_anneal_fields:
  "ckpt_file (final (select_or_anneal cfg e v s)) =
     (if flt v (best_val_ppl s) then Some (Epoch e) else ckpt_file s)"
  "best_epoch (final (select_or_anneal cfg e v s)) =
     (if flt v (best_val_ppl s) then e else best_epoch s)"
  "best_val_ppl (final (select_or_anneal cfg e v s)) =
     (if flt v (best_val_ppl s) then v else best_val_ppl s)"
  "trace (final (select_or_anneal cfg e v s)) =
     trace s @ (if flt v (best_val_ppl s) then [Save e] else [])"
  "all_val_ppls (final (select_or_anneal cfg e v s)) = all_val_ppls s"
  by (simp_all add: select_or_anneal_def split: sum.splits)

lemma select_or_anneal_lr:
  "opt_lr (final (select_or_anneal cfg e v s)) = opt_lr s \<or>
   (1 / 100000 < opt_lr s \<and> lr_factor cfg \<noteq> 0 \<and>
    opt_lr (final (select_or_anneal cfg e v s)) = opt_lr s / lr_factor cfg)"
  using check_anneal_result [of cfg "all_val_ppls s" v "opt_lr s"]
  by (auto simp: select_or_anneal_def split: sum.splits)

lemma maybe_visualize_fields:
  "ckpt_file (final (maybe_visualize cfg e s)) = ckpt_file s"
  "best_epoch (final (maybe_visualize cfg e s)) = best_epoch s"
  "best_val_ppl (final (maybe_visualize cfg e s)) = best_val_ppl s"
  "opt_lr (final (maybe_visualize cfg e s)) = opt_lr s"
  "all_val_ppls (final (maybe_visualize cfg e s)) = all_val_ppls s"
  "\<exists>vis. set vis \<subseteq> {Visualize e} \<and> trace (final (maybe_visualize cfg e s)) = trace s @ vis"
  by (simp_all add: maybe_visualize_def)

lemma final_and_then:
  "final (and_then r f) = (case r of Done s \<Rightarrow> final (f s) | Raised e s \<Rightarrow> s)"
  by (cases r) simp_all

lemma epoch_body_final:
  "final (epoch_body cfg ev e s) =
     (case select_or_anneal cfg e (ev e) (s\<lparr>trace := trace s @ [TrainForEpoch e, Evaluate ''val'']\<rparr>) of
        Raised err s2 \<Rightarrow> s2
      | Done s2 \<Rightarrow>
          (case maybe_visualize cfg e s2 of
             Raised err s3 \<Rightarrow> s3
           | Done s3 \<Rightarrow> s3\<lparr>all_val_ppls := all_val_ppls s3 @ [ev e]\<rparr>))"
  by (simp add: epoch_body_def Let_def final_and_then split: outcome.splits)

text \<open>Wherever the body of the loop stops, its state is one of three.\<close>

lemma epoch_body_cases:
  fixes cfg ev e s
  defines "s1 \<equiv> s\<lparr>trace := trace s @ [TrainForEpoch e, Evaluate ''val'']\<rparr>"
  defines "s2 \<equiv> final (select_or_anneal cfg e (ev e) s1)"
  defines "s3 \<equiv> final (maybe_visualize cfg e s2)"
  shows "final (epoch_body cfg ev e s) = s2 \<or> final (epoch_body cfg ev e s) = s3 \<or>
         final (epoch_body cfg ev e s) = s3\<lparr>all_val_ppls := all_val_ppls s3 @ [ev e]\<rparr>"
  unfolding s1_def s2_def s3_def epoch_body_final
  by (auto split: outcome.splits)

lemma epoch_body_fields:
  "ckpt_file (final (epoch_body cfg ev e s)) =
     (if flt (ev e) (best_val_ppl s) then Some (Epoch e) else ckpt_file s)"
  "best_epoch (final (epoch_body cfg ev e s)) =
     (if flt (ev e) (best_val_ppl s) then e else best_epoch s)"
  "best_val_ppl (final (epoch_body cfg ev e s)) =
     (if flt (ev e) (best_val_ppl s) then ev e else best_val_ppl s)"
  using epoch_body_cases [of cfg ev e s]
  by (auto simp: select_or_anneal_fields maybe_visualize_fields)

lemma epoch_body_trace:
  "\<exists>vis. set vis \<subseteq> {Visualize e} \<and>
     trace (final (epoch_body cfg ev e s)) =
       trace s @ [TrainForEpoch e, Evaluate ''val''] @
       (if flt (ev e) (best_val_ppl s) then [Save e] else []) @ vis"
proof -
  let ?s1 = "s\<lparr>trace := trace s @ [TrainForEpoch e, Evaluate ''val'']\<rparr>"
  let ?s2 = "final (select_or_anneal cfg e (ev e) ?s1)"
  let ?base = "trace s @ [TrainForEpoch e, Evaluate ''val''] @
       (if flt (ev e) (best_val_ppl s) then [Save e] else [])"
  have t2: "trace ?s2 = ?base"
    by (simp add: select_or_anneal_fields)
  obtain vis where vis: "set vis \<subseteq> {Visualize e}"
      "trace (final (maybe_visualize cfg e ?s2)) = trace ?s2 @ vis"
    using maybe_visualize_fields(6) [of e cfg ?s2] by blast
  from epoch_body_cases [of cfg ev e s]
  have "trace (final (epoch_body cfg ev e s)) = ?base @ [] \<or>
        trace (final (epoch_body cfg ev e s)) = ?base @ vis"
    using t2 vis(2) by auto
  then show ?thesis using vis(1)
    by (metis append.assoc empty_set empty_subsetI)
qed

lemma epoch_body_lr:
  "opt_lr (final (epoch_body cfg ev e s)) = opt_lr s \<or>
   (1 / 100000 < opt_lr s \<and> lr_factor cfg \<noteq> 0 \<and>
    opt_lr (final (epoch_body cfg ev e s)) = opt_lr s / lr_factor cfg)"
  using epoch_body_cases [of cfg ev e s]
    select_or_anneal_lr [of cfg e "ev e" "s\<lparr>trace := trace s @ [TrainForEpoch e, Evaluate ''val'']\<rparr>"]
  by (auto simp: maybe_visualize_fields)

lemma Save_in_step:
  assumes "Save k \<in> set (trace (final (epoch_body cfg ev e s)))"
  shows "Save k \<in> set (trace s) \<or> (k = e \<and> flt (ev e) (best_val_ppl s))"
proof -
  obtain vis where vis: "set vis \<subseteq> {Visualize e}"
      "trace (final (epoch_body cfg ev e s)) =
       trace s @ [TrainForEpoch e, Evaluate ''val''] @
       (if flt (ev e) (best_val_ppl s) then [Save e] else []) @ vis"
    using epoch_body_trace by blast
  have "Save k \<notin> set vis" using vis(1) by auto
  then show ?thesis using assms unfolding vis(2) by (auto split: if_splits)
qed

lemma count_Save_step:
  "count_list (trace (final (epoch_body cfg ev e s))) (Save k) \<le>
     count_list (trace s) (Save k) + (if k = e then 1 else 0)"
proof -
  obtain vis where vis: "set vis \<subseteq> {Visualize e}"
      "trace (final (epoch_body cfg ev e s)) =
       trace s @ [TrainForEpoch e, Evaluate ''val''] @
       (if flt (ev e) (best_val_ppl s) then [Save e] else []) @ vis"
    using epoch_body_trace by blast
  have "Save k \<notin> set vis" using vis(1) by auto
  then have "count_list vis (Save k) = 0" by (simp add: count_list_0_iff)
  then show ?thesis by (simp add: vis(2))
qed

subsection \<open>The loop and the run\<close>

lemma epoch_loop_append:
  "epoch_loop cfg ev (es @ es') s = and_then (epoch_loop cfg ev es s) (epoch_loop cfg ev es')"
proof (induction es arbitrary: s)
  case Nil
  then show ?case by simp
next
  case (Cons e es)
  then show ?case by (cases "epoch_body cfg ev e s") simp_all
qed

lemma count_Save_loop:
  "count_list (trace (final (epoch_loop cfg ev es s))) (Save k) \<le>
     count_list (trace s) (Save k) + count_list es k"
proof (induction es arbitrary: s)
  case Nil
  then show ?case by simp
next
  case (Cons e es)
  have step: "count_list (trace (final (epoch_body cfg ev e s))) (Save k) \<le>
      count_list (trace s) (Save k) + (if k = e then 1 else 0)"
    by (rule count_Save_step)
  show ?case
  proof (cases "epoch_body cfg ev e s")
    case (Done s')
    then show ?thesis using Cons.IH [of s'] step by auto
  next
    case (Raised err s')
    then show ?thesis using step by auto
  qed
qed


lemma Save_in_loop:
  "Save k \<in> set (trace (final (epoch_loop cfg ev es s))) \<Longrightarrow> Save k \<in> set (trace s) \<or> k \<in> set es"
  using count_Save_loop [of cfg ev es s k]
  by (metis add_is_0 count_list_0_iff le_zero_eq)

lemma trace_initial [simp]: "trace (initial cfg disk) = []"
  by (simp add: initial_def)

lemma ckpt_file_initial [simp]: "ckpt_file (initial cfg disk) = disk"
  by (simp add: initial_def)

lemma main_ETM_train:
  "mode cfg = ''train'' \<Longrightarrow> main_ETM cfg ev disk =
     (case epoch_loop cfg ev [0..<nat (epochs cfg)] (initial cfg disk) of
        Raised err s \<Rightarrow> Raised err s
      | Done s \<Rightarrow>
          (case ckpt_file s of
             None \<Rightarrow> Raised FileNotFoundError s
           | Some c \<Rightarrow> Done (s\<lparr>trace := trace s @ [Load, Evaluate ''val'']\<rparr>)))"
  by (simp add: main_ETM_def load_ckpt_def split: outcome.splits option.splits)

lemma main_ETM_eval:
  "mode cfg \<noteq> ''train'' \<Longrightarrow> main_ETM cfg ev disk =
     (case disk of
        None \<Rightarrow> Raised FileNotFoundError (initial cfg disk)
      | Some c \<Rightarrow> Done ((initial cfg disk)\<lparr>trace := [Load, Evaluate ''val'', SaveParameters]\<rparr>))"
  by (simp add: main_ETM_def load_ckpt_def initial_def split: option.splits)

lemma evaluate_labels_append:
  "evaluate_labels (xs @ ys) = evaluate_labels xs @ evaluate_labels ys"
  by (induction xs rule: evaluate_labels.induct) simp_all

lemma evaluate_labels_visualize:
  "set vis \<subseteq> {Visualize e} \<Longrightarrow> evaluate_labels vis = []"
  by (induction vis) auto

lemma evaluate_labels_step:
  "evaluate_labels (trace (final (epoch_body cfg ev e s))) = evaluate_labels (trace s) @ [''val'']"
proof -
  obtain vis where vis: "set vis \<subseteq> {Visualize e}"
      "trace (final (epoch_body cfg ev e s)) =
       trace s @ [TrainForEpoch e, Evaluate ''val''] @
       (if flt (ev e) (best_val_ppl s) then [Save e] else []) @ vis"
    using epoch_body_trace by blast
  show ?thesis
    unfolding vis(2) using evaluate_labels_visualize [OF vis(1)]
    by (simp add: evaluate_labels_append)
qed

lemma evaluate_labels_loop:
  "set (evaluate_labels (trace (final (epoch_loop cfg ev es s)))) \<subseteq>
     set (evaluate_labels (trace s)) \<union> {''val''}"
proof (induction es arbitrary: s)
  case Nil
  then show ?case by auto
next
  case (Cons e es)
  have step: "set (evaluate_labels (trace (final (epoch_body cfg ev e s)))) \<subseteq>
      set (evaluate_labels (trace s)) \<union> {''val''}"
    by (simp add: evaluate_labels_step)
  show ?case
  proof (cases "epoch_body cfg ev e s")
    case (Done s')
    then show ?thesis using Cons.IH [of s'] step by auto
  next
    case (Raised err s')
    then show ?thesis using step by auto
  qed
qed

lemma evaluate_labels_loop_Done:
  "epoch_loop cfg ev es s = Done s' \<Longrightarrow>
     evaluate_labels (trace s') = evaluate_labels (trace s) @ replicate (length es) ''val''"
proof (induction es arbitrary: s)
  case Nil
  then show ?case by simp
next
  case (Cons e es)
  show ?case
  proof (cases "epoch_body cfg ev e s")
    case (Done s1)
    then have "evaluate_labels (trace s1) = evaluate_labels (trace s) @ [''val'']"
      using evaluate_labels_step [of cfg ev e s] by simp
    moreover have "epoch_loop cfg ev es s1 = Done s'"
      using Cons.prems Done by simp
    ultimately show ?thesis
      using Cons.IH [of s1] by (simp add: replicate_app_Cons_same)
  next
    case (Raised err s1)
    then show ?thesis using Cons.prems by simp
  qed
qed

subsection \<open>The learning rate\<close>

lemma divide_not_larger:
  fixes cur f :: real
  assumes "\<not> (0 < f \<and> f < 1)" and "0 < cur" and "f \<noteq> 0"
  shows "cur / f \<le> cur"
proof (cases "f < 0")
  case True
  then have "cur / f < 0" using assms(2) by (simp add: divide_pos_neg)
  then show ?thesis using assms(2) by linarith
next
  case False
  then have "1 \<le> f" using assms by linarith
  then show ?thesis using assms(2) by (simp add: divide_le_eq)
qed

lemma epoch_body_lr_le:
  assumes "\<not> (0 < lr_factor cfg \<and> lr_factor cfg < 1)"
  shows "opt_lr (final (epoch_body cfg ev e s)) \<le> opt_lr s"
  using epoch_body_lr [of cfg ev e s] divide_not_larger [OF assms, of "opt_lr s"]
  by auto

lemma epoch_loop_lr_le:
  assumes "\<not> (0 < lr_factor cfg \<and> lr_factor cfg < 1)"
  shows "opt_lr (final (epoch_loop cfg ev es s)) \<le> opt_lr s"
proof (induction es arbitrary: s)
  case Nil
  then show ?case by simp
next
  case (Cons e es)
  have step: "opt_lr (final (epoch_body cfg ev e s)) \<le> opt_lr s"
    using assms by (rule epoch_body_lr_le)
  show ?case
  proof (cases "epoch_body cfg ev e s")
    case (Done s')
    then show ?thesis using Cons.IH [of s'] step by simp
  next
    case (Raised err s')
    then show ?thesis using step by simp
  qed
qed

subsection \<open>The sentinel\<close>

lemma below_sentinel_initial: "below_sentinel (initial cfg disk)"
  by (simp add: below_sentinel_def initial_def)

lemma below_sentinel_step:
  "below_sentinel s \<Longrightarrow> below_sentinel (final (epoch_body cfg ev e s))"
  by (cases "ev e"; cases "best_val_ppl s") (auto simp: below_sentinel_def epoch_body_fields)

lemma below_sentinel_loop:
  "below_sentinel s \<Longrightarrow> below_sentinel (final (epoch_loop cfg ev es s))"
proof (induction es arbitrary: s)
  case Nil
  then show ?case by simp
next
  case (Cons e es)
  have step: "below_sentinel (final (epoch_body cfg ev e s))"
    using Cons.prems by (rule below_sentinel_step)
  show ?case
  proof (cases "epoch_body cfg ev e s")
    case (Done s')
    then show ?thesis using Cons.IH [of s'] step by simp
  next
    case (Raised err s')
    then show ?thesis using step by simp
  qed
qed

lemma not_below_sentinel:
  "below_sentinel s \<Longrightarrow> \<not> flt v (Num (10 ^ 9)) \<Longrightarrow> \<not> flt v (best_val_ppl s)"
  by (cases v; cases "best_val_ppl s") (auto simp: below_sentinel_def)

lemma loop_without_improvement:
  assumes "below_sentinel s" and "\<forall>e \<in> set es. \<not> flt (ev e) (Num (10 ^ 9))"
  shows "ckpt_file (final (epoch_loop cfg ev es s)) = ckpt_file s \<and>
         (\<forall>k. Save k \<in> set (trace (final (epoch_loop cfg ev es s))) \<longrightarrow> Save k \<in> set (trace s))"
  using assms
proof (induction es arbitrary: s)
  case Nil
  then show ?case by simp
next
  case (Cons e es)
  let ?s' = "final (epoch_body cfg ev e s)"
  have no: "\<not> flt (ev e) (best_val_ppl s)"
    using Cons.prems not_below_sentinel [of s "ev e"] by simp
  have step: "ckpt_file ?s' = ckpt_file s"
      "\<forall>k. Save k \<in> set (trace ?s') \<longrightarrow> Save k \<in> set (trace s)"
    using no Save_in_step [of _ cfg ev e s] by (auto simp: epoch_body_fields)
  have inv: "below_sentinel ?s'"
    using Cons.prems(1) by (rule below_sentinel_step)
  show ?case
  proof (cases "epoch_body cfg ev e s")
    case (Done s1)
    then have s1: "?s' = s1" by simp
    have "ckpt_file (final (epoch_loop cfg ev es s1)) = ckpt_file s1 \<and>
          (\<forall>k. Save k \<in> set (trace (final (epoch_loop cfg ev es s1))) \<longrightarrow> Save k \<in> set (trace s1))"
      using Cons.IH [of s1] inv Cons.prems(2) s1 by simp
    then show ?thesis using step Done s1 by simp
  next
    case (Raised err s1)
    then show ?thesis using step by simp
  qed
qed

section \<open>The claims about main_ETM\<close>






text \<open>
  C7, as amended. Whenever \<open>lr_factor\<close> does not lie strictly between 0 and 1 (in
  particular for every factor of at least one), the learning rate is non-increasing
  across a training run: running further epochs never leaves it larger than it was. An
  epoch changes it only in the selection step that follows the training pass and the
  evaluation, and only by one division by \<open>lr_factor\<close>.
\<close>

theorem lr_non_increasing:
  assumes "\<not> (0 < lr_factor cfg \<and> lr_factor cfg < 1)"
  shows "opt_lr (final (epoch_loop cfg ev (es @ es') s)) \<le> opt_lr (final (epoch_loop cfg ev es s)) \<and>
         (opt_lr (final (epoch_body cfg ev e s)) = opt_lr s \<or>
          opt_lr (final (epoch_body cfg ev e s)) = opt_lr s / lr_factor cfg)"
proof
  show "opt_lr (final (epoch_loop cfg ev (es @ es') s)) \<le> opt_lr (final (epoch_loop cfg ev es s))"
  proof (cases "epoch_loop cfg ev es s")
    case (Done s')
    then show ?thesis using epoch_loop_lr_le [OF assms, of ev es' s']
      by (simp add: epoch_loop_append)
  next
    case (Raised err s')
    then show ?thesis by (simp add: epoch_loop_append)
  qed
  show "opt_lr (final (epoch_body cfg ev e s)) = opt_lr s \<or>
          opt_lr (final (epoch_body cfg ev e s)) = opt_lr s / lr_factor cfg"
    using epoch_body_lr [of cfg ev e s] by auto
qed

theorem lr_non_increasing_witness:
  "opt_lr (final (epoch_loop annealing_run rising_ppl ([0, 1] @ [2]) (initial annealing_run None)))
     \<le> opt_lr (final (epoch_loop annealing_run rising_ppl [0, 1] (initial annealing_run None))) \<and>
   opt_lr (final (epoch_loop annealing_run rising_ppl [0, 1, 2] (initial annealing_run None))) = 1 / 800"
proof -
  have pre: "\<not> (0 < lr_factor annealing_run \<and> lr_factor annealing_run < 1)"
    by (simp add: annealing_run_def)
  have "opt_lr (final (epoch_loop annealing_run rising_ppl [0, 1, 2] (initial annealing_run None))) = 1 / 800"
    by (simp add: annealing_run_def rising_ppl_def initial_def epoch_body_def
        select_or_anneal_def maybe_visualize_def check_anneal_def slice_upto_def py_min_def
        py_truediv_def fgt_def Let_def)
  then show ?thesis
    using lr_non_increasing [OF pre, of rising_ppl "[0, 1]" "[2]" "initial annealing_run None"]
    by simp
qed

text \<open>
  The claim as it stands, for every choice of hyperparameters, fails for a factor of one
  half: the third epoch of \<open>growing_rate\<close> divides the learning rate 0.005 by 0.5, and
  the run ends with 0.01.
\<close>

theorem lr_grows_counterexample:
  "opt_lr (initial growing_rate None) = 5 / 1000 \<and>
   opt_lr (final (main_ETM growing_rate rising_ppl None)) = 1 / 100 \<and>
   opt_lr (initial growing_rate None) < opt_lr (final (main_ETM growing_rate rising_ppl None))"
  by (simp add: main_ETM_def growing_rate_def annealing_run_def rising_ppl_def initial_def
      epoch_body_def select_or_anneal_def maybe_visualize_def check_anneal_def slice_upto_def
      py_min_def py_truediv_def fgt_def load_ckpt_def Let_def upt_rec)

text \<open>
  C8. Every call of \<^verbatim>\<open>model.evaluate\<close> that \<^verbatim>\<open>main_ETM\<close> issues passes the label
  \<^verbatim>\<open>'val'\<close>: the call after each training epoch, the call after the reload at the end
  of training, and the call of the evaluation mode whose result is named
  \<^verbatim>\<open>test_ppl\<close>. A training run that completes has issued one call per epoch and one
  more, an evaluation run that completes exactly one.
\<close>

theorem evaluate_always_val:
  "set (evaluate_labels (trace (final (main_ETM cfg ev disk)))) \<subseteq> {''val''} \<and>
   (\<forall>s. main_ETM cfg ev disk = Done s \<longrightarrow>
      evaluate_labels (trace s) =
        replicate (if mode cfg = ''train'' then nat (epochs cfg) + 1 else 1) ''val'')"
proof (cases "mode cfg = ''train''")
  case True
  let ?r = "epoch_loop cfg ev [0..<nat (epochs cfg)] (initial cfg disk)"
  have sub: "set (evaluate_labels (trace (final ?r))) \<subseteq> {''val''}"
    using evaluate_labels_loop [of cfg ev "[0..<nat (epochs cfg)]" "initial cfg disk"] by simp
  have all: "evaluate_labels (trace s') = replicate (nat (epochs cfg)) ''val''" if "?r = Done s'" for s'
    using evaluate_labels_loop_Done [OF that] by simp
  show ?thesis
  proof (cases ?r)
    case (Done s')
    then show ?thesis using sub all [OF Done]
      by (auto simp: main_ETM_train True evaluate_labels_append replicate_append_same
          split: option.splits)
  next
    case (Raised err s')
    then show ?thesis using sub by (simp add: main_ETM_train True)
  qed
next
  case False
  then show ?thesis
    by (auto simp: main_ETM_eval initial_def split: option.splits)
qed

theorem evaluate_always_val_witness:
  "set (evaluate_labels (trace (final (main_ETM annealing_run rising_ppl None)))) \<subseteq> {''val''} \<and>
   evaluate_labels (trace (final (main_ETM annealing_run rising_ppl None))) =
     [''val'', ''val'', ''val'', ''val''] \<and>
   evaluate_labels (trace (final (main_ETM (annealing_run\<lparr>mode := ''eval''\<rparr>) rising_ppl (Some Previous)))) =
     [''val'']"
proof -
  have "evaluate_labels (trace (final (main_ETM annealing_run rising_ppl None))) =
     [''val'', ''val'', ''val'', ''val'']"
    by (simp add: main_ETM_def annealing_run_def rising_ppl_def initial_def epoch_body_def
        select_or_anneal_def maybe_visualize_def check_anneal_def slice_upto_def py_min_def
        py_truediv_def fgt_def load_ckpt_def Let_def upt_rec)
  moreover have "evaluate_labels (trace (final (main_ETM (annealing_run\<lparr>mode := ''eval''\<rparr>)
      rising_ppl (Some Previous)))) = [''val'']"
    by (simp add: main_ETM_def annealing_run_def initial_def load_ckpt_def)
  ultimately show ?thesis
    using evaluate_always_val [of annealing_run rising_ppl None] by simp
qed

text \<open>
  C10. The best value seen starts at the sentinel \<open>1e9\<close> and only ever decreases, so an
  epoch whose perplexity is NaN or at least \<open>1e9\<close> writes no checkpoint, whatever came
  before it in the run. If no epoch of a training run has a perplexity below \<open>1e9\<close>
  (as when \<open>epochs\<close> is zero), the run writes no checkpoint and leaves the checkpoint
  path as it found it; with no file there from an earlier run the run ends in an
  exception, and when the loop itself completes, that exception is the FileNotFoundError
  of the reload, while a file from an earlier run makes the reload succeed.
\<close>

theorem sentinel_blocks_checkpoint:
  assumes train: "mode cfg = ''train''"
  shows "(\<forall>n. ev n = NaN \<or> (\<exists>x. ev n = Num x \<and> 10 ^ 9 \<le> x) \<longrightarrow>
            ckpt_file (final (epoch_body cfg ev n (final (epoch_loop cfg ev [0..<n] (initial cfg disk))))) =
              ckpt_file (final (epoch_loop cfg ev [0..<n] (initial cfg disk))) \<and>
            Save n \<notin> set (trace (final (epoch_body cfg ev n
                                   (final (epoch_loop cfg ev [0..<n] (initial cfg disk))))))) \<and>
         ((\<forall>e < nat (epochs cfg). ev e = NaN \<or> (\<exists>x. ev e = Num x \<and> 10 ^ 9 \<le> x)) \<longrightarrow>
            (\<forall>k. Save k \<notin> set (trace (final (main_ETM cfg ev disk)))) \<and>
            ckpt_file (final (main_ETM cfg ev disk)) = disk \<and>
            (disk = None \<longrightarrow> (\<exists>err s. main_ETM cfg ev disk = Raised err s)) \<and>
            (\<forall>s. epoch_loop cfg ev [0..<nat (epochs cfg)] (initial cfg disk) = Done s \<longrightarrow>
               main_ETM cfg ev disk =
                 (case disk of
                    None \<Rightarrow> Raised FileNotFoundError s
                  | Some c \<Rightarrow> Done (s\<lparr>trace := trace s @ [Load, Evaluate ''val'']\<rparr>))))"
proof (intro conjI allI impI)
  fix n
  assume "ev n = NaN \<or> (\<exists>x. ev n = Num x \<and> 10 ^ 9 \<le> x)"
  then have hi: "\<not> flt (ev n) (Num (10 ^ 9))"
    by auto
  let ?s = "final (epoch_loop cfg ev [0..<n] (initial cfg disk))"
  have "below_sentinel ?s"
    by (rule below_sentinel_loop) (rule below_sentinel_initial)
  then have no: "\<not> flt (ev n) (best_val_ppl ?s)"
    using hi by (rule not_below_sentinel)
  then show "ckpt_file (final (epoch_body cfg ev n ?s)) = ckpt_file ?s"
    by (simp add: epoch_body_fields)
  have "Save n \<notin> set (trace ?s)"
    using Save_in_loop [of n cfg ev "[0..<n]" "initial cfg disk"] by auto
  then show "Save n \<notin> set (trace (final (epoch_body cfg ev n ?s)))"
    using no Save_in_step [of n cfg ev n ?s] by auto
next
  assume "\<forall>e < nat (epochs cfg). ev e = NaN \<or> (\<exists>x. ev e = Num x \<and> 10 ^ 9 \<le> x)"
  then have all: "\<forall>e < nat (epochs cfg). \<not> flt (ev e) (Num (10 ^ 9))"
    by auto
  let ?r = "epoch_loop cfg ev [0..<nat (epochs cfg)] (initial cfg disk)"
  have loop: "ckpt_file (final ?r) = disk" "\<And>k. Save k \<notin> set (trace (final ?r))"
    using loop_without_improvement [of "initial cfg disk" "[0..<nat (epochs cfg)]" ev cfg]
      below_sentinel_initial [of cfg disk] all by auto
  have run: "main_ETM cfg ev disk =
     (case ?r of
        Raised err s \<Rightarrow> Raised err s
      | Done s \<Rightarrow>
          (case ckpt_file s of
             None \<Rightarrow> Raised FileNotFoundError s
           | Some c \<Rightarrow> Done (s\<lparr>trace := trace s @ [Load, Evaluate ''val'']\<rparr>)))"
    using train by (rule main_ETM_train)
  show "ckpt_file (final (main_ETM cfg ev disk)) = disk"
    using loop(1) unfolding run by (auto split: outcome.splits option.splits)
  { fix k
    show "Save k \<notin> set (trace (final (main_ETM cfg ev disk)))"
      using loop(2) [of k] unfolding run by (auto split: outcome.splits option.splits) }
  { assume "disk = None"
    then show "\<exists>err s. main_ETM cfg ev disk = Raised err s"
      using loop(1) unfolding run by (auto split: outcome.splits option.splits) }
  { fix s assume "?r = Done s"
    then show "main_ETM cfg ev disk =
                 (case disk of
                    None \<Rightarrow> Raised FileNotFoundError s
                  | Some c \<Rightarrow> Done (s\<lparr>trace := trace s @ [Load, Evaluate ''val'']\<rparr>))"
      using loop(1) unfolding run by simp }
qed

theorem sentinel_blocks_checkpoint_witness:
  "epoch_loop annealing_run hopeless_ppl [0..<nat (epochs annealing_run)] (initial annealing_run None) =
     Done hopeless_end \<and>
   main_ETM annealing_run hopeless_ppl None = Raised FileNotFoundError hopeless_end \<and>
   ckpt_file (final (main_ETM annealing_run hopeless_ppl None)) = None"
proof -
  have train: "mode annealing_run = ''train''"
    by (simp add: annealing_run_def)
  have never: "\<forall>e < nat (epochs annealing_run).
      hopeless_ppl e = NaN \<or> (\<exists>x. hopeless_ppl e = Num x \<and> 10 ^ 9 \<le> x)"
    by (simp add: hopeless_ppl_def)
  have loop: "epoch_loop annealing_run hopeless_ppl [0..<nat (epochs annealing_run)]
      (initial annealing_run None) = Done hopeless_end"
    by (simp add: annealing_run_def hopeless_ppl_def hopeless_end_def initial_def fgt_def
        epoch_body_def select_or_anneal_def maybe_visualize_def check_anneal_def slice_upto_def
        py_min_def Let_def upt_rec)
  show ?thesis
    using sentinel_blocks_checkpoint [OF train, of hopeless_ppl None] never loop
    by (simp add: hopeless_end_def)
qed

end
